theory Spec2Isabelle
  imports Complex_Main "HOL-Library.Sublist"
begin

section \<open>Values of the program\<close>

text \<open>
  The program is \<^verbatim>\<open>src/index.ts\<close>. Everything it does to a repository goes through the
  nodegit library, and its dates through date-fns; neither is part of the program, so the
  library calls are parameters of the model (a record of backend operations, and the
  \<^verbatim>\<open>addMonths\<close> function). A rejected promise or a thrown exception is the \<open>Inl\<close> of a sum.
\<close>

datatype error =
    GitError string      \<comment> \<open>a rejection coming from the backend\<close>
  | TypeError string     \<comment> \<open>a property access on \<^verbatim>\<open>undefined\<close>\<close>

text \<open>An entry of \<^verbatim>\<open>config/authors.json\<close>.\<close>

record author_entry =
  name :: string
  email :: string
  role :: string

text \<open>
  A \<^verbatim>\<open>Git.Signature\<close>: \<^verbatim>\<open>name()\<close>, \<^verbatim>\<open>email()\<close>, \<^verbatim>\<open>when().time()\<close> (Unix seconds) and
  \<^verbatim>\<open>when().offset()\<close> (minutes).
\<close>

record signature =
  sig_name :: string
  sig_email :: string
  time :: int
  offset :: int

text \<open>
  A \<^verbatim>\<open>Git.Commit\<close> handle. Commits are immutable, so what \<^verbatim>\<open>getTree()\<close> and \<^verbatim>\<open>getDiff()\<close>
  resolve or reject with is a field. \<^verbatim>\<open>getDiff()\<close> resolves with one diff per parent, each
  diff being here the list of the \<^verbatim>\<open>newFile().path()\<close> of its patches; a rejected
  \<^verbatim>\<open>patches()\<close> rejects \<^verbatim>\<open>getCommitFiles\<close> like a rejected \<^verbatim>\<open>getDiff()\<close>.
\<close>

record commit =
  oid :: string
  author :: signature
  committer :: signature
  message :: string
  getTree :: "error + string"
  getDiff :: "error + string list list"

record CommitStat =
  stat_author :: string
  stat_time :: "int option"

record CommitStats =
  commit_id :: string
  old :: CommitStat
  new :: CommitStat

record Opts =
  branch :: "string option"
  changeTime :: "bool option"
  keepAuthor :: "bool option"

section \<open>Helpers\<close>

definition FRONTEND_LABEL :: string where
  "FRONTEND_LABEL = ''client''"

definition BACKEND_LABEL :: string where
  "BACKEND_LABEL = ''server''"

text \<open>\<^verbatim>\<open>tail = arr[arr.length - 1]\<close>: \<^verbatim>\<open>undefined\<close> on the empty array.\<close>

definition tail :: "'a list \<Rightarrow> 'a option" where
  "tail arr = (if arr = [] then None else Some (arr ! (length arr - 1)))"

text \<open>
  \<^verbatim>\<open>x | 0\<close> on an integral number: the value modulo \<open>2^32\<close>, read as a signed 32-bit integer.
\<close>

definition toInt32 :: "int \<Rightarrow> int" where
  "toInt32 x = (x + 2147483648) mod 4294967296 - 2147483648"

text \<open>Truncation towards zero, the first step of \<^verbatim>\<open>| 0\<close> on a fraction.\<close>

definition trunc_rat :: "rat \<Rightarrow> int" where
  "trunc_rat q = (if 0 \<le> q then \<lfloor>q\<rfloor> else \<lceil>q\<rceil>)"

text \<open>
  \<^verbatim>\<open>randomSelect = arr[(Math.random() * arr.length) | 0]\<close>. The value of \<^verbatim>\<open>Math.random()\<close> is
  the parameter \<open>r\<close>, a fraction, and the product is the exact one; an index outside the
  array reads \<^verbatim>\<open>undefined\<close>. (The program's product is rounded to a double: for a few
  values of \<open>r\<close> just below a multiple of \<open>1/n\<close> it reads the next index. The array that is
  indexed, and whether the read is defined, are the same.)
\<close>

definition randomSelect :: "rat \<Rightarrow> 'a list \<Rightarrow> 'a option" where
  "randomSelect r arr =
     (let i = toInt32 (trunc_rat (r * of_nat (length arr)))
      in if 0 \<le> i \<and> i < int (length arr) then Some (arr ! nat i) else None)"

text \<open>
  \<^verbatim>\<open>getRandomAuthor(role?)\<close>: \<^verbatim>\<open>!role\<close> holds for \<^verbatim>\<open>undefined\<close> and for the empty string.
\<close>

definition getRandomAuthor :: "author_entry list \<Rightarrow> rat \<Rightarrow> string option \<Rightarrow> author_entry option" where
  "getRandomAuthor authors r rl =
     (if rl = None \<or> rl = Some [] then randomSelect r authors
      else randomSelect r (filter (\<lambda>a. Some (role a) = rl) authors))"

text \<open>\<^verbatim>\<open>String.prototype.includes\<close>: the pattern occurs somewhere in the string.\<close>

fun includes_s :: "string \<Rightarrow> string \<Rightarrow> bool" where
  "includes_s [] pat = (pat = [])"
| "includes_s (x # xs) pat = (prefix pat (x # xs) \<or> includes_s xs pat)"

text \<open>
  What ``the pattern occurs somewhere in the string'' means, stated without the search:
  the string splits into a part before, the pattern, and a part after.
\<close>

definition contains :: "string \<Rightarrow> string \<Rightarrow> bool" where
  "contains s pat = (\<exists>ps ss. s = ps @ pat @ ss)"

text \<open>
  \<^verbatim>\<open>String.prototype.replace\<close> with a string pattern: the first occurrence of the pattern is
  replaced, the rest of the string is kept. (The replacement used by the program has no
  \<^verbatim>\<open>$\<close>, so it is inserted as it is.)
\<close>

fun replace :: "string \<Rightarrow> string \<Rightarrow> string \<Rightarrow> string" where
  "replace [] pat rep = (if pat = [] then rep else [])"
| "replace (x # xs) pat rep =
     (if prefix pat (x # xs) then rep @ drop (length pat) (x # xs)
      else x # replace xs pat rep)"

text \<open>
  \<^verbatim>\<open>getCommitFiles\<close>: the paths of the first diff, \<^verbatim>\<open>v[0]\<close>, which is \<^verbatim>\<open>undefined\<close> when
  there is no diff.
\<close>

definition getCommitFiles :: "commit \<Rightarrow> error + string list option" where
  "getCommitFiles c =
     (case getDiff c of
        Inl e \<Rightarrow> Inl e
      | Inr v \<Rightarrow> Inr (case v of [] \<Rightarrow> None | d # _ \<Rightarrow> Some d))"

definition determineAuthorForCommit ::
    "author_entry list \<Rightarrow> rat \<Rightarrow> commit \<Rightarrow> error + author_entry option" where
  "determineAuthorForCommit authors r c =
     (case getCommitFiles c of
        Inl e \<Rightarrow> Inl e
      | Inr None \<Rightarrow> Inl (TypeError ''filter'')
      | Inr (Some commitFiles) \<Rightarrow>
          (let frontendChangesAmount = length (filter (\<lambda>path. includes_s path FRONTEND_LABEL) commitFiles);
               backendChangesAmount = length (filter (\<lambda>path. includes_s path BACKEND_LABEL) commitFiles)
           in if backendChangesAmount > frontendChangesAmount then
                Inr (getRandomAuthor authors r (Some ''backend''))
              else if frontendChangesAmount > backendChangesAmount then
                Inr (getRandomAuthor authors r (Some ''frontend''))
              else Inr (getRandomAuthor authors r None)))"

subsection \<open>Dates\<close>

text \<open>
  A \<^verbatim>\<open>Date\<close> is its time value, milliseconds since the epoch, or \<open>None\<close> for an invalid date
  (time value \<^verbatim>\<open>NaN\<close>). \<^verbatim>\<open>fromUnixTime(t)\<close> is \<^verbatim>\<open>new Date(t * 1000)\<close>, invalid beyond
  \<open>8.64e15\<close> milliseconds.
\<close>

definition fromUnixTime :: "int \<Rightarrow> int option" where
  "fromUnixTime unixTime =
     (if \<bar>unixTime * 1000\<bar> \<le> 8640000000000000 then Some (unixTime * 1000) else None)"

text \<open>
  \<^verbatim>\<open>(d.valueOf() / 1000) | 0\<close>: an invalid date gives \<^verbatim>\<open>NaN | 0 = 0\<close>; otherwise the quotient
  is truncated towards zero and wrapped to 32 bits. (A time value is below \<open>2^53\<close>, where
  the floating-point quotient truncates to the same integer as the exact one.)
\<close>

definition secondsOfDate :: "int option \<Rightarrow> int" where
  "secondsOfDate d =
     (case d of
        None \<Rightarrow> 0
      | Some ms \<Rightarrow> toInt32 (if 0 \<le> ms then ms div 1000 else - ((- ms) div 1000)))"

text \<open>
  \<^verbatim>\<open>operateTime\<close>. The parameter \<open>addMonths\<close> is date-fns' function of that name.
\<close>

definition operateTime :: "(int option \<Rightarrow> int \<Rightarrow> int option) \<Rightarrow> int \<Rightarrow> int" where
  "operateTime addMonths unixTime = secondsOfDate (addMonths (fromUnixTime unixTime) 6)"

section \<open>The version-control backend\<close>

text \<open>
  The nodegit calls of \<^verbatim>\<open>run\<close>, as functions of the repository state \<open>'r\<close>. A call that
  only reads returns no state; a call that writes returns the new state when it resolves,
  and a rejected call leaves the repository as it was. \<^verbatim>\<open>getCommitsUntil\<close> stands for the
  walker (\<^verbatim>\<open>Revwalk.create\<close>, \<^verbatim>\<open>pushRef\<close>, \<^verbatim>\<open>getCommitsUntil(() => true)\<close>), newest commit
  first. \<^verbatim>\<open>repo.checkoutBranch\<close> is not awaited by the program and its rejection is never
  seen; the model applies its effect before the next call.
\<close>

datatype reference = Reference string

fun toString :: "reference \<Rightarrow> string" where
  "toString (Reference n) = n"

record 'r backend =
  getBranch :: "'r \<Rightarrow> string \<Rightarrow> error + reference"
  resolve :: "'r \<Rightarrow> reference \<Rightarrow> error + reference"
  getCommitsUntil :: "'r \<Rightarrow> string \<Rightarrow> error + commit list"
  createBranch :: "'r \<Rightarrow> string \<Rightarrow> commit option \<Rightarrow> bool \<Rightarrow> error + reference \<times> 'r"
  delete :: "'r \<Rightarrow> reference \<Rightarrow> error + 'r"
  checkoutBranch :: "'r \<Rightarrow> reference \<Rightarrow> 'r"
  getHeadCommit :: "'r \<Rightarrow> error + commit"
  getCommit :: "'r \<Rightarrow> string \<Rightarrow> error + commit"
  createCommit :: "'r \<Rightarrow> string \<Rightarrow> signature \<Rightarrow> signature \<Rightarrow> string \<Rightarrow> string \<Rightarrow> commit list
                     \<Rightarrow> error + string \<times> 'r"
  amend :: "'r \<Rightarrow> commit \<Rightarrow> string \<Rightarrow> signature \<Rightarrow> signature \<Rightarrow> string \<Rightarrow> string \<Rightarrow> string
              \<Rightarrow> error + string \<times> 'r"

section \<open>The rewrite\<close>

subsection \<open>New signatures\<close>

text \<open>
  Lines 141--152 (first commit) and 183--194 (the other commits) are the same text; they
  are modelled once. \<open>au\<close> is what \<^verbatim>\<open>determineAuthorForCommit\<close> resolved with, \<open>None\<close> for
  \<^verbatim>\<open>undefined\<close>: reading \<^verbatim>\<open>author.name\<close> then throws, but only when the branch that reads it
  is taken. \<^verbatim>\<open>Git.Signature.create\<close> is taken to build the signature from its four
  arguments.
\<close>

definition Signature_create :: "string \<Rightarrow> string \<Rightarrow> int \<Rightarrow> int \<Rightarrow> signature" where
  "Signature_create n e t off = \<lparr>sig_name = n, sig_email = e, time = t, offset = off\<rparr>"

definition authorTime :: "(int option \<Rightarrow> int \<Rightarrow> int option) \<Rightarrow> bool \<Rightarrow> commit \<Rightarrow> int" where
  "authorTime addMonths chTime c =
     (if chTime then operateTime addMonths (time (author c)) else time (author c))"

definition commiterTime :: "(int option \<Rightarrow> int \<Rightarrow> int option) \<Rightarrow> bool \<Rightarrow> commit \<Rightarrow> int" where
  "commiterTime addMonths chTime c =
     (if chTime then operateTime addMonths (time (committer c)) else time (committer c))"

definition authorSignature ::
    "(int option \<Rightarrow> int \<Rightarrow> int option) \<Rightarrow> bool \<Rightarrow> bool \<Rightarrow> author_entry option \<Rightarrow> commit
     \<Rightarrow> error + signature" where
  "authorSignature addMonths chTime keep au c =
     (if keep then Inr (author c)
      else case au of
             None \<Rightarrow> Inl (TypeError ''name'')
           | Some a \<Rightarrow> Inr (Signature_create (name a) (email a) (authorTime addMonths chTime c)
                             (offset (author c))))"

definition commiterSignature ::
    "(int option \<Rightarrow> int \<Rightarrow> int option) \<Rightarrow> bool \<Rightarrow> bool \<Rightarrow> author_entry option \<Rightarrow> commit
     \<Rightarrow> error + signature" where
  "commiterSignature addMonths chTime keep au c =
     (if keep then Inr (committer c)
      else case au of
             None \<Rightarrow> Inl (TypeError ''name'')
           | Some a \<Rightarrow> Inr (Signature_create (name a) (email a) (commiterTime addMonths chTime c)
                             (offset (committer c))))"

definition commitStats :: "string \<Rightarrow> commit \<Rightarrow> signature \<Rightarrow> CommitStats" where
  "commitStats newId c aSig =
     \<lparr>commit_id = newId,
      old = \<lparr>stat_author = sig_name (author c), stat_time = fromUnixTime (time (author c))\<rparr>,
      new = \<lparr>stat_author = sig_name aSig, stat_time = fromUnixTime (time aSig)\<rparr>\<rparr>"

subsection \<open>Amending the first commit (lines 138--176)\<close>

text \<open>
  \<open>c\<close> is \<open>None\<close> when the walk gave no commit and the destructured \<^verbatim>\<open>firstCommit\<close> is
  \<^verbatim>\<open>undefined\<close>. Nothing here is caught: every failure rejects \<^verbatim>\<open>run\<close>.
\<close>

definition newFirstCommit ::
    "'r backend \<Rightarrow> (int option \<Rightarrow> int \<Rightarrow> int option) \<Rightarrow> author_entry list \<Rightarrow> bool \<Rightarrow> bool
     \<Rightarrow> 'r \<Rightarrow> commit option \<Rightarrow> rat \<Rightarrow> (error + CommitStats) \<times> 'r" where
  "newFirstCommit P addMonths authors chTime keep repo co r =
     (case co of
        None \<Rightarrow> (Inl (TypeError ''getDiff''), repo)
      | Some c \<Rightarrow>
     (case determineAuthorForCommit authors r c of
        Inl e \<Rightarrow> (Inl e, repo)
      | Inr au \<Rightarrow>
     (case authorSignature addMonths chTime keep au c of
        Inl e \<Rightarrow> (Inl e, repo)
      | Inr aSig \<Rightarrow>
     (case commiterSignature addMonths chTime keep au c of
        Inl e \<Rightarrow> (Inl e, repo)
      | Inr cSig \<Rightarrow>
     (case getTree c of
        Inl e \<Rightarrow> (Inl e, repo)
      | Inr tree \<Rightarrow>
     (case amend P repo c ''HEAD'' aSig cSig ''UTF-8'' (message c) tree of
        Inl e \<Rightarrow> (Inl e, repo)
      | Inr (newCommit, repo') \<Rightarrow> (Inr (commitStats newCommit c aSig), repo')))))))"

subsection \<open>Recommitting the other commits (lines 178--231)\<close>

text \<open>The commit the new one is parented onto (lines 197--201).\<close>

definition currentCommit :: "'r backend \<Rightarrow> 'r \<Rightarrow> CommitStats list \<Rightarrow> error + commit" where
  "currentCommit P repo commits =
     (case tail commits of
        Some lastCommit \<Rightarrow> getCommit P repo (commit_id lastCommit)
      | None \<Rightarrow> getHeadCommit P repo)"

text \<open>The body of the \<^verbatim>\<open>try\<close> block (lines 197--224).\<close>

definition tryRecommit ::
    "'r backend \<Rightarrow> 'r \<Rightarrow> CommitStats list \<Rightarrow> commit \<Rightarrow> signature \<Rightarrow> signature
     \<Rightarrow> error + CommitStats list \<times> 'r" where
  "tryRecommit P repo commits c aSig cSig =
     (case currentCommit P repo commits of
        Inl e \<Rightarrow> Inl e
      | Inr cur \<Rightarrow>
     (case getTree c of
        Inl e \<Rightarrow> Inl e
      | Inr tree \<Rightarrow>
     (case createCommit P repo ''HEAD'' aSig cSig
             (replace (message c) ''MAKHROVYI'' ''AnotherOneProject'') tree [cur] of
        Inl e \<Rightarrow> Inl e
      | Inr (newCommit, repo') \<Rightarrow> Inr (commits @ [commitStats newCommit c aSig], repo'))))"

text \<open>
  One call of the reducer, on the commit \<open>c\<close> and the value \<open>r\<close> that \<^verbatim>\<open>Math.random()\<close> has
  while \<open>c\<close> is processed. The author and the signatures are computed before the
  \<^verbatim>\<open>try\<close>: their failure rejects the reducer's promise. A failure inside the \<^verbatim>\<open>try\<close> is
  caught and the accumulator is returned as it came.
\<close>

definition recommit ::
    "'r backend \<Rightarrow> (int option \<Rightarrow> int \<Rightarrow> int option) \<Rightarrow> author_entry list \<Rightarrow> bool \<Rightarrow> bool
     \<Rightarrow> 'r \<Rightarrow> CommitStats list \<Rightarrow> commit \<times> rat \<Rightarrow> (error + CommitStats list) \<times> 'r" where
  "recommit P addMonths authors chTime keep repo commits cr =
     (case determineAuthorForCommit authors (snd cr) (fst cr) of
        Inl e \<Rightarrow> (Inl e, repo)
      | Inr au \<Rightarrow>
     (case authorSignature addMonths chTime keep au (fst cr) of
        Inl e \<Rightarrow> (Inl e, repo)
      | Inr aSig \<Rightarrow>
     (case commiterSignature addMonths chTime keep au (fst cr) of
        Inl e \<Rightarrow> (Inl e, repo)
      | Inr cSig \<Rightarrow>
     (case tryRecommit P repo commits (fst cr) aSig cSig of
        Inl err \<Rightarrow> (Inr commits, repo)
      | Inr (commits', repo') \<Rightarrow> (Inr commits', repo')))))"

text \<open>
  \<^verbatim>\<open>commits.reduce(async (acc, c) => { const { commits } = await acc; ... })\<close>: each call
  awaits the promise of the one before it, so the calls run in sequence, and once one is
  rejected every later one is rejected at its \<^verbatim>\<open>await acc\<close> without running.
\<close>

fun reduceCommits ::
    "'r backend \<Rightarrow> (int option \<Rightarrow> int \<Rightarrow> int option) \<Rightarrow> author_entry list \<Rightarrow> bool \<Rightarrow> bool
     \<Rightarrow> 'r \<Rightarrow> CommitStats list \<Rightarrow> (commit \<times> rat) list \<Rightarrow> (error + CommitStats list) \<times> 'r" where
  "reduceCommits P addMonths authors chTime keep repo commits [] = (Inr commits, repo)"
| "reduceCommits P addMonths authors chTime keep repo commits (cr # rest) =
     (case recommit P addMonths authors chTime keep repo commits cr of
        (Inl e, repo') \<Rightarrow> (Inl e, repo')
      | (Inr commits', repo') \<Rightarrow> reduceCommits P addMonths authors chTime keep repo' commits' rest)"

subsection \<open>Creating the new branch (lines 118--135)\<close>

definition newBranchName :: "string \<Rightarrow> string" where
  "newBranchName branchName = ''recommited/'' @ branchName"

text \<open>
  The first \<^verbatim>\<open>createBranch\<close> is tried; whatever it rejects with, the branch of that name is
  looked up and deleted and \<^verbatim>\<open>createBranch\<close> is called once more, outside any \<^verbatim>\<open>try\<close>.
  (\<^verbatim>\<open>if (!newBranch) return\<close> cannot fire: a resolved \<^verbatim>\<open>createBranch\<close> gives a Reference
  object.)
\<close>

definition createNewBranch ::
    "'r backend \<Rightarrow> 'r \<Rightarrow> string \<Rightarrow> commit option \<Rightarrow> (error + reference) \<times> 'r" where
  "createNewBranch P repo branchName firstCommit =
     (case createBranch P repo (newBranchName branchName) firstCommit True of
        Inr (newBranch, repo') \<Rightarrow> (Inr newBranch, repo')
      | Inl err \<Rightarrow>
     (case getBranch P repo (newBranchName branchName) of
        Inl e \<Rightarrow> (Inl e, repo)
      | Inr stale \<Rightarrow>
     (case delete P repo stale of
        Inl e \<Rightarrow> (Inl e, repo)
      | Inr repo' \<Rightarrow>
     (case createBranch P repo' (newBranchName branchName) firstCommit True of
        Inl e \<Rightarrow> (Inl e, repo')
      | Inr (newBranch, repo'') \<Rightarrow> (Inr newBranch, repo'')))))"

subsection \<open>Resolving the source branch (lines 75--110)\<close>

text \<open>\<^verbatim>\<open>repo.getBranch(n).then((b) => b.resolve()).then((r) => r.toString())\<close>\<close>

definition resolveBranch :: "'r backend \<Rightarrow> 'r \<Rightarrow> string \<Rightarrow> error + string" where
  "resolveBranch P repo n =
     (case getBranch P repo n of
        Inl e \<Rightarrow> Inl e
      | Inr b \<Rightarrow> (case resolve P repo b of Inl e \<Rightarrow> Inl e | Inr r \<Rightarrow> Inr (toString r)))"

text \<open>
  Lines 85--105: the variable \<^verbatim>\<open>originalBranch\<close> after the two \<^verbatim>\<open>try\<close> blocks; \<open>None\<close> is
  \<^verbatim>\<open>null\<close>. \<^verbatim>\<open>!originalBranch\<close> holds for \<^verbatim>\<open>null\<close> and for the empty string.
\<close>

definition originalBranch :: "'r backend \<Rightarrow> 'r \<Rightarrow> string \<Rightarrow> string option" where
  "originalBranch P repo branchName =
     (let ob = (case resolveBranch P repo branchName of Inl err \<Rightarrow> None | Inr s \<Rightarrow> Some s)
      in if ob = None \<or> ob = Some []
         then (case resolveBranch P repo (''origin/'' @ branchName) of
                 Inl err \<Rightarrow> ob
               | Inr s \<Rightarrow> Some s)
         else ob)"

subsection \<open>The run\<close>

text \<open>
  How \<^verbatim>\<open>run\<close> ends: its promise is rejected; it returns at ``Could not find branch'';
  or it reaches the report with the list \<^verbatim>\<open>modifiedCommits\<close>.
\<close>

datatype outcome =
    Rejected error
  | BranchNotFound
  | Reported "CommitStats list"

text \<open>
  \<^verbatim>\<open>run\<close>, from the repository that \<^verbatim>\<open>Git.Repository.open\<close> resolved with. \<open>random k\<close> is the
  value of the \<open>k\<close>-th call of \<^verbatim>\<open>Math.random()\<close>; each processed commit makes one call. The
  first statement (lines 75--80) logs the resolved branch outside any \<^verbatim>\<open>try\<close>.
\<close>

definition run ::
    "'r backend \<Rightarrow> (int option \<Rightarrow> int \<Rightarrow> int option) \<Rightarrow> author_entry list \<Rightarrow> (nat \<Rightarrow> rat)
     \<Rightarrow> 'r \<Rightarrow> Opts \<Rightarrow> outcome \<times> 'r" where
  "run P addMonths authors random repo options =
     (let branchName = (case branch options of None \<Rightarrow> ''master'' | Some b \<Rightarrow> b);
          chTime = (case changeTime options of None \<Rightarrow> False | Some b \<Rightarrow> b);
          keep = (case keepAuthor options of None \<Rightarrow> False | Some b \<Rightarrow> b)
      in
      case resolveBranch P repo branchName of
        Inl e \<Rightarrow> (Rejected e, repo)
      | Inr logged \<Rightarrow>
     (case originalBranch P repo branchName of
        None \<Rightarrow> (BranchNotFound, repo)
      | Some ob \<Rightarrow>
     (if ob = [] then (BranchNotFound, repo)
      else
     (case getCommitsUntil P repo ob of
        Inl e \<Rightarrow> (Rejected e, repo)
      | Inr found \<Rightarrow>
     (let firstCommit = (case rev found of [] \<Rightarrow> None | c # _ \<Rightarrow> Some c);
          commits = tl (rev found)
      in
      case createNewBranch P repo branchName firstCommit of
        (Inl e, repo1) \<Rightarrow> (Rejected e, repo1)
      | (Inr newBranch, repo1) \<Rightarrow>
     (case newFirstCommit P addMonths authors chTime keep (checkoutBranch P repo1 newBranch)
             firstCommit (random 0) of
        (Inl e, repo2) \<Rightarrow> (Rejected e, repo2)
      | (Inr first, repo2) \<Rightarrow>
     (case reduceCommits P addMonths authors chTime keep repo2 []
             (zip commits (map random [1..<Suc (length commits)])) of
        (Inl e, repo3) \<Rightarrow> (Rejected e, repo3)
      | (Inr newCommits, repo3) \<Rightarrow> (Reported (first # newCommits), repo3))))))))"

section \<open>Concrete libraries, for running the model\<close>

subsection \<open>An in-memory repository\<close>

text \<open>
  A small backend to run the model on: branches are name/tip pairs, \<open>HEAD\<close> names the
  checked-out branch, \<open>links\<close> gives each commit its parent, and \<open>createCommit\<close> rejects a
  tree listed in \<open>broken\<close>. Creating a branch that exists is rejected. A new commit gets a
  fresh identifier.
\<close>

record mem_repo =
  refs :: "(string \<times> string) list"
  HEAD :: string
  odb :: "commit list"
  links :: "(string \<times> string) list"
  broken :: "string list"

definition lookup :: "mem_repo \<Rightarrow> string \<Rightarrow> error + commit" where
  "lookup r i = (case find (\<lambda>c. oid c = i) (odb r) of
                   None \<Rightarrow> Inl (GitError ''object not found'')
                 | Some c \<Rightarrow> Inr c)"

fun walk :: "mem_repo \<Rightarrow> nat \<Rightarrow> string \<Rightarrow> commit list" where
  "walk r 0 i = []"
| "walk r (Suc n) i =
     (case lookup r i of
        Inl e \<Rightarrow> []
      | Inr c \<Rightarrow> c # (case map_of (links r) i of None \<Rightarrow> [] | Some p \<Rightarrow> walk r n p))"

definition store ::
    "mem_repo \<Rightarrow> signature \<Rightarrow> signature \<Rightarrow> string \<Rightarrow> string \<Rightarrow> string list \<Rightarrow> string \<times> mem_repo" where
  "store r aSig cSig msg tree ps =
     (let newId = ''new'' @ replicate (length (odb r)) (CHR ''+'')
      in (newId,
          r\<lparr>odb := \<lparr>oid = newId, author = aSig, committer = cSig, message = msg,
                     getTree = Inr tree, getDiff = Inr [ [] ]\<rparr> # odb r,
            links := map (\<lambda>p. (newId, p)) ps @ links r,
            refs := (HEAD r, newId) # filter (\<lambda>b. fst b \<noteq> HEAD r) (refs r)\<rparr>))"

definition mem_backend :: "mem_repo backend" where
  "mem_backend =
     \<lparr>getBranch = (\<lambda>r n. if map_of (refs r) n = None then Inl (GitError ''no such branch'')
                        else Inr (Reference n)),
      resolve = (\<lambda>r b. Inr b),
      getCommitsUntil = (\<lambda>r n. case map_of (refs r) n of
                                 None \<Rightarrow> Inl (GitError ''no such reference'')
                               | Some i \<Rightarrow> Inr (walk r (length (odb r)) i)),
      createBranch = (\<lambda>r n co force.
                        case co of
                          None \<Rightarrow> Inl (TypeError ''commit'')
                        | Some c \<Rightarrow>
                            if map_of (refs r) n = None
                            then Inr (Reference n, r\<lparr>refs := (n, oid c) # refs r\<rparr>)
                            else Inl (GitError ''branch exists'')),
      delete = (\<lambda>r b. if map_of (refs r) (toString b) = None then Inl (GitError ''no such branch'')
                       else Inr (r\<lparr>refs := filter (\<lambda>p. fst p \<noteq> toString b) (refs r)\<rparr>)),
      checkoutBranch = (\<lambda>r b. r\<lparr>HEAD := toString b\<rparr>),
      getHeadCommit = (\<lambda>r. case map_of (refs r) (HEAD r) of
                             None \<Rightarrow> Inl (GitError ''unborn HEAD'')
                           | Some i \<Rightarrow> lookup r i),
      getCommit = lookup,
      createCommit = (\<lambda>r ref aSig cSig msg tree ps.
                        if tree \<in> set (broken r) then Inl (GitError ''bad tree'')
                        else Inr (store r aSig cSig msg tree (map oid ps))),
      amend = (\<lambda>r c ref aSig cSig enc msg tree.
                 if map_of (refs r) (HEAD r) = Some (oid c)
                 then Inr (store r aSig cSig msg tree
                             (case map_of (links r) (oid c) of None \<Rightarrow> [] | Some p \<Rightarrow> [p]))
                 else Inl (GitError ''not the tip''))\<rparr>"

subsection \<open>Calendar months in UTC\<close>

text \<open>
  date-fns' \<^verbatim>\<open>addMonths\<close> for a process whose local time zone is UTC: the month is moved,
  the day of the month is kept or cut down to the last day of the target month, the time
  of day is kept. Days are counted from 1970-01-01 in the proleptic Gregorian calendar.
\<close>

definition days_from_civil :: "int \<Rightarrow> int \<Rightarrow> int \<Rightarrow> int" where
  "days_from_civil y m d =
     (let y' = (if m \<le> 2 then y - 1 else y);
          era = y' div 400;
          yoe = y' - era * 400;
          doy = (153 * (if m > 2 then m - 3 else m + 9) + 2) div 5 + d - 1;
          doe = yoe * 365 + yoe div 4 - yoe div 100 + doy
      in era * 146097 + doe - 719468)"

definition civil_from_days :: "int \<Rightarrow> int \<times> int \<times> int" where
  "civil_from_days z =
     (let z' = z + 719468;
          era = z' div 146097;
          doe = z' - era * 146097;
          yoe = (doe - doe div 1460 + doe div 36524 - doe div 146096) div 365;
          doy = doe - (365 * yoe + yoe div 4 - yoe div 100);
          mp = (5 * doy + 2) div 153;
          d = doy - (153 * mp + 2) div 5 + 1;
          m = (if mp < 10 then mp + 3 else mp - 9)
      in (if m \<le> 2 then yoe + era * 400 + 1 else yoe + era * 400, m, d))"

definition days_in_month :: "int \<Rightarrow> int \<Rightarrow> int" where
  "days_in_month y m =
     (if m = 12 then 31 else days_from_civil y (m + 1) 1 - days_from_civil y m 1)"

definition addMonthsUTC :: "int option \<Rightarrow> int \<Rightarrow> int option" where
  "addMonthsUTC date amount =
     (case date of
        None \<Rightarrow> None
      | Some ms \<Rightarrow>
          (case civil_from_days (ms div 86400000) of
             (y, m, d) \<Rightarrow>
               (let k = m - 1 + amount;
                    y' = y + k div 12;
                    m' = k mod 12 + 1;
                    d' = min d (days_in_month y' m');
                    ms' = days_from_civil y' m' d' * 86400000 + ms mod 86400000
                in if \<bar>ms'\<bar> \<le> 8640000000000000 then Some ms' else None)))"

subsection \<open>A sample repository\<close>

text \<open>
  Three commits on \<open>master\<close>, oldest first \<open>c0\<close>, \<open>c1\<close>, \<open>c2\<close>, all signed at
  2023-01-15T10:00:00Z; \<open>c1\<close> touches three \<open>server\<close> paths and one \<open>client\<close> path.
\<close>

definition ann :: author_entry where
  "ann = \<lparr>name = ''Ann'', email = ''ann@example.org'', role = ''backend''\<rparr>"

definition bob :: author_entry where
  "bob = \<lparr>name = ''Bob'', email = ''bob@example.org'', role = ''frontend''\<rparr>"

definition sig0 :: signature where
  "sig0 = \<lparr>sig_name = ''Orig'', sig_email = ''orig@example.org'', time = 1673776800, offset = 120\<rparr>"

definition c0 :: commit where
  "c0 = \<lparr>oid = ''c0'', author = sig0, committer = sig0, message = ''init'',
         getTree = Inr ''t0'', getDiff = Inr [ [''README.md''] ]\<rparr>"

definition c1 :: commit where
  "c1 = \<lparr>oid = ''c1'', author = sig0, committer = sig0,
         message = ''MAKHROVYI: start MAKHROVYI server'',
         getTree = Inr ''t1'',
         getDiff = Inr [ [''server/a.ts'', ''server/b.ts'', ''server/c.ts'', ''client/x.ts''] ]\<rparr>"

definition c2 :: commit where
  "c2 = \<lparr>oid = ''c2'', author = sig0, committer = sig0, message = ''client page'',
         getTree = Inr ''t2'', getDiff = Inr [ [''client/x.ts''] ]\<rparr>"

definition repo0 :: mem_repo where
  "repo0 = \<lparr>refs = [(''master'', ''c2'')], HEAD = ''master'', odb = [c2, c1, c0],
            links = [(''c2'', ''c1''), (''c1'', ''c0'')], broken = []\<rparr>"

text \<open>
  Variants of the sample: a repository that only has the remote-tracking branch; a
  commit whose diff cannot be computed, and the repository holding it; a repository in
  which the tree of \<open>c1\<close> cannot be written.
\<close>

definition repo_origin :: mem_repo where
  "repo_origin = repo0\<lparr>refs := [(''origin/master'', ''c2'')]\<rparr>"

definition c1_nodiff :: commit where
  "c1_nodiff = c1\<lparr>getDiff := Inl (GitError ''diff unavailable'')\<rparr>"

definition repo_nodiff :: mem_repo where
  "repo_nodiff = repo0\<lparr>odb := [c2, c1_nodiff, c0]\<rparr>"

definition repo_broken :: mem_repo where
  "repo_broken = repo0\<lparr>broken := [''t1'']\<rparr>"

text \<open>The options object with no option given, and with all three given.\<close>

definition opts0 :: Opts where
  "opts0 = \<lparr>branch = None, changeTime = None, keepAuthor = None\<rparr>"

definition opts_of :: "string \<Rightarrow> bool \<Rightarrow> bool \<Rightarrow> Opts" where
  "opts_of b ch k = \<lparr>branch = Some b, changeTime = Some ch, keepAuthor = Some k\<rparr>"


definition seeded_nodiff :: mem_repo where
  "seeded_nodiff =
     snd (newFirstCommit mem_backend addMonthsUTC [ann, bob] False False
            (checkoutBranch mem_backend
               (snd (createNewBranch mem_backend repo_nodiff ''master'' (Some c0)))
               (Reference ''recommited/master''))
            (Some c0) (1/2))"

definition sigAnn :: signature where
  "sigAnn = \<lparr>sig_name = ''Ann'', sig_email = ''ann@example.org'', time = 1673776800, offset = 120\<rparr>"

subsection \<open>What creating a branch needs from the backend\<close>

text \<open>
  The contract on branch pointers that the re-creation of the destination branch relies
  on, for a backend \<open>P\<close> whose branch names in a repository are listed by \<open>names\<close>:
  creating a branch from a commit either resolves, and then the repository has exactly
  one pointer of that name, or is rejected, and then a pointer of that name exists; a
  pointer that exists can be looked up and deleted, after which the name is gone.
\<close>

definition branch_contract :: "'r backend \<Rightarrow> ('r \<Rightarrow> string list) \<Rightarrow> bool" where
  "branch_contract P names =
     (\<forall>repo n c force.
        (case createBranch P repo n (Some c) force of
           Inl e \<Rightarrow> n \<in> set (names repo)
         | Inr (b, repo') \<Rightarrow> count_list (names repo') n = 1)
      \<and> (n \<in> set (names repo) \<longrightarrow>
           (\<exists>stale repo'. getBranch P repo n = Inr stale \<and> delete P repo stale = Inr repo'
                          \<and> n \<notin> set (names repo'))))"

text \<open>The branch names of the in-memory repository.\<close>

definition branch_names :: "mem_repo \<Rightarrow> string list" where
  "branch_names r = map fst (refs r)"

section \<open>Properties of the helpers\<close>

subsection \<open>Strings\<close>

lemma includes_s_contains: "includes_s s pat = contains s pat"
proof (induction s)
  case Nil
  show ?case by (auto simp: contains_def)
next
  case (Cons x xs)
  show ?case
  proof
    assume "includes_s (x # xs) pat"
    then consider "prefix pat (x # xs)" | "includes_s xs pat" by auto
    then show "contains (x # xs) pat"
    proof cases
      case 1
      then obtain ss where "x # xs = pat @ ss" by (auto simp: prefix_def)
      then have "x # xs = [] @ pat @ ss" by simp
      then show ?thesis unfolding contains_def by blast
    next
      case 2
      with Cons obtain ps ss where "xs = ps @ pat @ ss" by (auto simp: contains_def)
      then have "x # xs = (x # ps) @ pat @ ss" by simp
      then show ?thesis unfolding contains_def by blast
    qed
  next
    assume "contains (x # xs) pat"
    then obtain ps ss where eq: "x # xs = ps @ pat @ ss" by (auto simp: contains_def)
    show "includes_s (x # xs) pat"
    proof (cases ps)
      case Nil
      with eq have "prefix pat (x # xs)" by (simp add: prefix_def)
      then show ?thesis by simp
    next
      case (Cons p ps')
      with eq have "xs = ps' @ pat @ ss" by simp
      then have "contains xs pat" unfolding contains_def by blast
      with Cons.IH show ?thesis by simp
    qed
  qed
qed

lemma replace_absent: "\<not> includes_s s pat \<Longrightarrow> replace s pat rep = s"
  by (induction s) auto

lemma replace_prefix: "prefix pat s \<Longrightarrow> replace s pat rep = rep @ drop (length pat) s"
  by (cases s) auto

lemma replace_first:
  "\<not> includes_s (ps @ butlast pat) pat \<Longrightarrow> replace (ps @ pat @ ss) pat rep = ps @ rep @ ss"
proof (induction ps)
  case Nil
  show ?case by (simp add: replace_prefix)
next
  case (Cons p ps)
  from Cons.prems have np: "\<not> prefix pat ((p # ps) @ butlast pat)" and ni: "\<not> includes_s (ps @ butlast pat) pat" by auto
  have "\<not> prefix pat (p # ps @ pat @ ss)"
  proof
    assume pr: "prefix pat (p # ps @ pat @ ss)"
    have "pat \<noteq> []" using np by auto
    then have "length pat \<le> length ((p # ps) @ butlast pat)" by (cases pat rule: rev_cases) auto
    moreover have "prefix ((p # ps) @ butlast pat) (p # ps @ pat @ ss)"
      by (simp add: prefixeq_butlast)
    ultimately have "prefix pat ((p # ps) @ butlast pat)" using pr
      by (metis prefix_length_prefix)
    with np show False by simp
  qed
  with Cons.IH[OF ni] show ?case by simp
qed

subsection \<open>32-bit truncation and random selection\<close>

lemma toInt32_id: "- 2147483648 \<le> x \<Longrightarrow> x < 2147483648 \<Longrightarrow> toInt32 x = x"
  by (simp add: toInt32_def)

lemma toInt32_range: "- 2147483648 \<le> toInt32 x \<and> toInt32 x < 2147483648"
  by (simp add: toInt32_def) 

lemma toInt32_wrap: "\<exists>k. toInt32 x = x - k * 4294967296 \<and> k = (x + 2147483648) div 4294967296"
proof -
  have "(x + 2147483648) mod 4294967296 = (x + 2147483648) - ((x + 2147483648) div 4294967296) * 4294967296"
    by (simp add: minus_div_mult_eq_mod [symmetric])
  then show ?thesis by (simp add: toInt32_def)
qed

lemma randomSelect_index:
  assumes "0 \<le> r" "r < 1" "arr \<noteq> []" "length arr < 2147483648"
  shows "\<exists>i < length arr. randomSelect r arr = Some (arr ! i)"
proof -
  let ?n = "length arr"
  let ?q = "r * of_nat ?n"
  have npos: "(0::rat) < of_nat ?n" using assms(3) by simp
  have q0: "0 \<le> ?q" using assms(1) by simp
  have qn: "?q < of_nat ?n" using assms(2) npos by simp
  have t: "trunc_rat ?q = \<lfloor>?q\<rfloor>" using q0 by (simp add: trunc_rat_def)
  have f0: "0 \<le> \<lfloor>?q\<rfloor>" using q0 by simp
  have fn: "\<lfloor>?q\<rfloor> < int ?n" using qn by (simp add: floor_less_iff)
  have "\<lfloor>?q\<rfloor> < 2147483648" using fn assms(4) by linarith
  then have "toInt32 \<lfloor>?q\<rfloor> = \<lfloor>?q\<rfloor>" using f0 by (intro toInt32_id) linarith+
  then have "randomSelect r arr = Some (arr ! nat \<lfloor>?q\<rfloor>)"
    using t f0 fn by (simp add: randomSelect_def Let_def)
  moreover have "nat \<lfloor>?q\<rfloor> < ?n" using f0 fn by linarith
  ultimately show ?thesis by blast
qed

lemma randomSelect_empty: "randomSelect r [] = None"
  by (simp add: randomSelect_def Let_def)

lemma randomSelect_Some_mem: "randomSelect r arr = Some a \<Longrightarrow> a \<in> set arr"
  by (auto simp: randomSelect_def Let_def split: if_splits)

lemma count_filter_includes:
  "length (filter (\<lambda>p. includes_s p l) files) = length (filter (\<lambda>p. contains p l) files)"
  by (simp add: includes_s_contains)

lemma secondsOfDate_whole:
  assumes "0 \<le> ms \<or> 1000 dvd ms"
  shows "secondsOfDate (Some ms) = toInt32 (ms div 1000)"
proof (cases "0 \<le> ms")
  case True
  then show ?thesis by (simp add: secondsOfDate_def)
next
  case False
  with assms obtain k where ms: "ms = 1000 * k" by (auto simp: dvd_def)
  then have "- ms = 1000 * (- k)" by simp
  then have "(- ms) div 1000 = - k" by simp
  moreover have "ms div 1000 = k" using ms by simp
  ultimately show ?thesis using False by (simp add: secondsOfDate_def)
qed

lemma toInt32_high:
  assumes "2147483648 \<le> x"
  shows "toInt32 x \<noteq> x \<and> (\<exists>k>0. toInt32 x = x - k * 4294967296)"
proof -
  from toInt32_wrap[of x] obtain k where k: "toInt32 x = x - k * 4294967296"
    and kd: "k = (x + 2147483648) div 4294967296" by blast
  have "0 < (x + 2147483648) div 4294967296"
    using assms by (simp add: pos_imp_zdiv_pos_iff)
  with kd have "0 < k" by simp
  with k show ?thesis by auto
qed

lemma toInt32_second_block:
  assumes "2147483648 \<le> x" and "x < 4294967296"
  shows "toInt32 x = x - 4294967296"
proof -
  have "(x + 2147483648) mod 4294967296 = x - 2147483648"
    using assms by (intro int_mod_pos_eq[where q = 1]) simp_all
  then show ?thesis by (simp add: toInt32_def)
qed

subsection \<open>The reducer and the run\<close>

lemma reduceCommits_append:
  "reduceCommits P addMonths authors chTime keep repo commits (xs @ ys) =
     (case reduceCommits P addMonths authors chTime keep repo commits xs of
        (Inl e, repo') \<Rightarrow> (Inl e, repo')
      | (Inr commits', repo') \<Rightarrow> reduceCommits P addMonths authors chTime keep repo' commits' ys)"
  by (induction xs arbitrary: repo commits) (auto split: prod.splits sum.splits)



lemma run_unresolved:
  assumes "resolveBranch P repo (case branch options of None \<Rightarrow> ''master'' | Some b \<Rightarrow> b) = Inl e"
  shows "run P addMonths authors random repo options = (Rejected e, repo)"
  using assms by (simp add: run_def Let_def)

lemma originalBranch_resolved:
  assumes "resolveBranch P repo branchName = Inr s" and "s \<noteq> []"
  shows "originalBranch P repo branchName = Some s"
  using assms by (simp add: originalBranch_def Let_def)

lemma run_reduce_rejected:
  assumes "resolveBranch P repo branchName = Inr s" and "s \<noteq> []"
      and "getCommitsUntil P repo s = Inr found"
      and "rev found = first # others"
      and "createNewBranch P repo branchName (Some first) = (Inr newBranch, repo1)"
      and "newFirstCommit P addMonths authors chTime keep (checkoutBranch P repo1 newBranch)
             (Some first) (random 0) = (Inr firstStats, repo2)"
      and "reduceCommits P addMonths authors chTime keep repo2 []
             (zip others (map random [1..<Suc (length others)])) = (Inl e, repo3)"
  shows "run P addMonths authors random repo (opts_of branchName chTime keep) = (Rejected e, repo3)"
proof -
  have ob: "originalBranch P repo branchName = Some s"
    using assms(1,2) by (rule originalBranch_resolved)
  show ?thesis
    unfolding run_def opts_of_def Let_def
    using assms(2,7) by (simp add: assms(1) ob assms(3) assms(4) assms(5) assms(6) del: upt_Suc)
qed

lemma createNewBranch_succeeds:
  assumes "branch_contract P names"
  shows "\<exists>b r1. createNewBranch P repo branchName (Some c) = (Inr b, r1)
               \<and> count_list (names r1) (newBranchName branchName) = 1"
proof -
  let ?n = "newBranchName branchName"
  have create: "(case createBranch P r ?n (Some c) True of
           Inl e \<Rightarrow> ?n \<in> set (names r)
         | Inr (b, repo') \<Rightarrow> count_list (names repo') ?n = 1)" for r
    using assms unfolding branch_contract_def by blast
  have stale: "?n \<in> set (names r) \<Longrightarrow>
           (\<exists>stale repo'. getBranch P r ?n = Inr stale \<and> delete P r stale = Inr repo'
                          \<and> ?n \<notin> set (names repo'))" for r
    using assms unfolding branch_contract_def by blast
  show ?thesis
  proof (cases "createBranch P repo ?n (Some c) True")
    case (Inr p)
    obtain b r1 where p: "p = (b, r1)" by (cases p)
    from create[of repo] Inr p have "count_list (names r1) ?n = 1" by simp
    moreover have "createNewBranch P repo branchName (Some c) = (Inr b, r1)"
      using Inr p by (simp add: createNewBranch_def)
    ultimately show ?thesis by blast
  next
    case (Inl e)
    with create[of repo] have "?n \<in> set (names repo)" by simp
    from stale[OF this] obtain st r' where
      g: "getBranch P repo ?n = Inr st" and d: "delete P repo st = Inr r'" and
      gone: "?n \<notin> set (names r')" by blast
    show ?thesis
    proof (cases "createBranch P r' ?n (Some c) True")
      case (Inl e')
      with create[of r'] gone show ?thesis by simp
    next
      case (Inr p)
      obtain b r1 where p: "p = (b, r1)" by (cases p)
      from create[of r'] Inr p have "count_list (names r1) ?n = 1" by simp
      moreover have "createNewBranch P repo branchName (Some c) = (Inr b, r1)"
        using Inl g d Inr p by (simp add: createNewBranch_def)
      ultimately show ?thesis by blast
    qed
  qed
qed

lemma createNewBranch_retry:
  assumes "createBranch P repo (newBranchName branchName) co True = Inl e"
      and "getBranch P repo (newBranchName branchName) = Inr stale"
      and "delete P repo stale = Inr r'"
  shows "createNewBranch P repo branchName co =
           (case createBranch P r' (newBranchName branchName) co True of
              Inl e' \<Rightarrow> (Inl e', r')
            | Inr (b, r'') \<Rightarrow> (Inr b, r''))"
  using assms by (simp add: createNewBranch_def)

lemma mem_backend_contract: "branch_contract mem_backend branch_names"
  unfolding branch_contract_def
proof (intro allI conjI impI)
  fix repo :: mem_repo and n :: string and c :: commit and force :: bool
  show "case createBranch mem_backend repo n (Some c) force of
           Inl e \<Rightarrow> n \<in> set (branch_names repo)
         | Inr (b, repo') \<Rightarrow> count_list (branch_names repo') n = 1"
  proof (cases "map_of (refs repo) n = None")
    case True
    then have "n \<notin> set (map fst (refs repo))" by (simp add: map_of_eq_None_iff)
    then have "count_list (map fst (refs repo)) n = 0" by (simp only: count_list_0_iff not_False_eq_True)
    then show ?thesis using True by (simp add: mem_backend_def branch_names_def)
  next
    case False
    then have m: "n \<in> set (map fst (refs repo))" by (simp add: map_of_eq_None_iff)
    from False obtain y where y: "map_of (refs repo) n = Some y" by blast
    from m show ?thesis by (simp add: mem_backend_def branch_names_def y)
  qed
next
  fix repo :: mem_repo and n :: string and c :: commit and force :: bool
  assume "n \<in> set (branch_names repo)"
  then have ex: "map_of (refs repo) n \<noteq> None"
    by (simp add: map_of_eq_None_iff branch_names_def)
  have g: "getBranch mem_backend repo n = Inr (Reference n)"
    using ex by (simp add: mem_backend_def)
  have d: "delete mem_backend repo (Reference n) = Inr (repo\<lparr>refs := filter (\<lambda>p. fst p \<noteq> n) (refs repo)\<rparr>)"
    using ex by (simp add: mem_backend_def)
  have "n \<notin> set (branch_names (repo\<lparr>refs := filter (\<lambda>p. fst p \<noteq> n) (refs repo)\<rparr>))"
    by (auto simp: branch_names_def)
  with g d show "\<exists>stale repo'. getBranch mem_backend repo n = Inr stale \<and> delete mem_backend repo stale = Inr repo'
                          \<and> n \<notin> set (branch_names repo')"
    by blast
qed

text \<open>
  The diff of a commit is read before the \<^verbatim>\<open>try\<close> block, so its failure is not caught:
  the call of the reducer for that commit is rejected with the diff's error and writes
  nothing, the reduction is rejected with it, no later commit is processed, and \<^verbatim>\<open>run\<close> is
  rejected instead of reporting.
\<close>

lemma diff_failure_rejects_the_run:
  assumes "getDiff c = Inl e"
      and "reduceCommits P addMonths authors chTime keep repo2 [] before = (Inr commits, repo3)"
  shows "recommit P addMonths authors chTime keep repo3 commits (c, r) = (Inl e, repo3)
       \<and> reduceCommits P addMonths authors chTime keep repo2 [] (before @ (c, r) # rest) = (Inl e, repo3)
       \<and> (resolveBranch P repo branchName = Inr s \<and> s \<noteq> []
            \<and> getCommitsUntil P repo s = Inr found
            \<and> rev found = first # others
            \<and> createNewBranch P repo branchName (Some first) = (Inr newBranch, repo1)
            \<and> newFirstCommit P addMonths authors chTime keep (checkoutBranch P repo1 newBranch)
                 (Some first) (random 0) = (Inr firstStats, repo2)
            \<and> zip others (map random [1..<Suc (length others)]) = before @ (c, r) # rest
           \<longrightarrow> run P addMonths authors random repo (opts_of branchName chTime keep) = (Rejected e, repo3))"
proof -
  have d: "determineAuthorForCommit authors r c = Inl e"
    using assms(1) by (simp add: determineAuthorForCommit_def getCommitFiles_def)
  have step: "recommit P addMonths authors chTime keep repo3 commits (c, r) = (Inl e, repo3)"
    by (simp add: recommit_def d)
  have red: "reduceCommits P addMonths authors chTime keep repo2 [] (before @ (c, r) # rest) = (Inl e, repo3)"
    by (simp add: reduceCommits_append assms(2) step)
  have top: "resolveBranch P repo branchName = Inr s \<and> s \<noteq> []
            \<and> getCommitsUntil P repo s = Inr found
            \<and> rev found = first # others
            \<and> createNewBranch P repo branchName (Some first) = (Inr newBranch, repo1)
            \<and> newFirstCommit P addMonths authors chTime keep (checkoutBranch P repo1 newBranch)
                 (Some first) (random 0) = (Inr firstStats, repo2)
            \<and> zip others (map random [1..<Suc (length others)]) = before @ (c, r) # rest
           \<longrightarrow> run P addMonths authors random repo (opts_of branchName chTime keep) = (Rejected e, repo3)"
  proof (intro impI, elim conjE)
    assume a: "resolveBranch P repo branchName = Inr s" "s \<noteq> []"
      "getCommitsUntil P repo s = Inr found" "rev found = first # others"
      "createNewBranch P repo branchName (Some first) = (Inr newBranch, repo1)"
      "newFirstCommit P addMonths authors chTime keep (checkoutBranch P repo1 newBranch)
                 (Some first) (random 0) = (Inr firstStats, repo2)"
      and z: "zip others (map random [1..<Suc (length others)]) = before @ (c, r) # rest"
    have "reduceCommits P addMonths authors chTime keep repo2 []
             (zip others (map random [1..<Suc (length others)])) = (Inl e, repo3)"
      unfolding z by (rule red)
    with a show "run P addMonths authors random repo (opts_of branchName chTime keep) = (Rejected e, repo3)"
      by (rule run_reduce_rejected)
  qed
  from step red top show ?thesis by (intro conjI)
qed

text \<open>The same on the sample whose second commit has no diff.\<close>

lemma diff_failure_rejects_the_run_on_sample:
  "getDiff c1_nodiff = Inl (GitError ''diff unavailable'')
   \<and> reduceCommits mem_backend addMonthsUTC [ann, bob] False False seeded_nodiff [] [] = (Inr [], seeded_nodiff)
   \<and> reduceCommits mem_backend addMonthsUTC [ann, bob] False False seeded_nodiff []
         [(c1_nodiff, 1/2), (c2, 1/2)] = (Inl (GitError ''diff unavailable''), seeded_nodiff)
   \<and> run mem_backend addMonthsUTC [ann, bob] (\<lambda>k. 1/2) repo_nodiff (opts_of ''master'' False False) =
         (Rejected (GitError ''diff unavailable''), seeded_nodiff)"
proof -
  let ?repo1 = "snd (createNewBranch mem_backend repo_nodiff ''master'' (Some c0))"
  let ?stats = "projr (fst (newFirstCommit mem_backend addMonthsUTC [ann, bob] False False
                  (checkoutBranch mem_backend ?repo1 (Reference ''recommited/master'')) (Some c0) (1/2)))"
  have h1: "getDiff c1_nodiff = Inl (GitError ''diff unavailable'')"
    by (simp add: c1_nodiff_def)
  have h2: "reduceCommits mem_backend addMonthsUTC [ann, bob] False False seeded_nodiff [] [] = (Inr [], seeded_nodiff)"
    by simp
  note T = diff_failure_rejects_the_run[of c1_nodiff "GitError ''diff unavailable''" mem_backend addMonthsUTC
             "[ann, bob]" False False seeded_nodiff "[]" "[]" seeded_nodiff "1/2" "[(c2, 1/2)]"
             repo_nodiff "''master''" "''master''" "[c2, c1_nodiff, c0]" c0 "[c1_nodiff, c2]"
             "Reference ''recommited/master''" ?repo1 "\<lambda>k. 1/2" ?stats, OF h1 h2]
  have p1: "resolveBranch mem_backend repo_nodiff ''master'' = Inr ''master''" by code_simp
  have p2: "''master'' \<noteq> []" by simp
  have p3: "getCommitsUntil mem_backend repo_nodiff ''master'' = Inr [c2, c1_nodiff, c0]" by code_simp
  have p4: "rev [c2, c1_nodiff, c0] = c0 # [c1_nodiff, c2]" by simp
  have p5: "createNewBranch mem_backend repo_nodiff ''master'' (Some c0) =
              (Inr (Reference ''recommited/master''), ?repo1)" by code_simp
  have p6: "newFirstCommit mem_backend addMonthsUTC [ann, bob] False False
              (checkoutBranch mem_backend ?repo1 (Reference ''recommited/master'')) (Some c0) (1/2) =
              (Inr ?stats, seeded_nodiff)" by code_simp
  have p7: "zip [c1_nodiff, c2] (map (\<lambda>k. 1/2) [1..<Suc (length [c1_nodiff, c2])]) =
              [] @ (c1_nodiff, 1/2) # [(c2, 1/2::rat)]" by code_simp
  have r1: "reduceCommits mem_backend addMonthsUTC [ann, bob] False False seeded_nodiff []
         ([] @ (c1_nodiff, 1/2) # [(c2, 1/2)]) = (Inl (GitError ''diff unavailable''), seeded_nodiff)"
    using T by (rule conjunct2[THEN conjunct1])
  have r2: "run mem_backend addMonthsUTC [ann, bob] (\<lambda>k. 1/2) repo_nodiff (opts_of ''master'' False False) =
         (Rejected (GitError ''diff unavailable''), seeded_nodiff)"
    using T[THEN conjunct2, THEN conjunct2] p1 p2 p3 p4 p5 p6 p7 by blast
  from h1 h2 r1 r2 show ?thesis by simp
qed

section \<open>The claims\<close>



text \<open>
  C2. For every commit of the chain, a failure to compute its diff should be caught on
  its own, the commit dropped and the run continued with the next commit. The program
  reads the diff two statements above the \<^verbatim>\<open>try\<close> block of the reducer: on the sample
  whose second commit has no diff the run is rejected with the diff's error, the only
  commit written is the amended first one, and \<open>c2\<close>, the next in sequence, is never
  recommitted. This is so with \<^verbatim>\<open>keepAuthor\<close> on as well, the option the program itself
  runs with, where the author the diff selects is not used. A commit whose tree cannot
  be written, a failure inside the \<^verbatim>\<open>try\<close>, is dropped and the run reports the two others.
\<close>

theorem diff_failure_aborts_sample_run:
  "getDiff c1_nodiff = Inl (GitError ''diff unavailable'')
   \<and> fst (run mem_backend addMonthsUTC [ann, bob] (\<lambda>k. 1/2) repo_nodiff opts0) =
        Rejected (GitError ''diff unavailable'')
   \<and> map oid (odb (snd (run mem_backend addMonthsUTC [ann, bob] (\<lambda>k. 1/2) repo_nodiff opts0))) =
        [''new+++'', ''c2'', ''c1'', ''c0'']
   \<and> fst (run mem_backend addMonthsUTC [ann, bob] (\<lambda>k. 1/2) repo_nodiff (opts_of ''master'' False True)) =
        Rejected (GitError ''diff unavailable'')
   \<and> map oid (odb (snd (run mem_backend addMonthsUTC [ann, bob] (\<lambda>k. 1/2) repo_nodiff
                           (opts_of ''master'' False True)))) =
        [''new+++'', ''c2'', ''c1'', ''c0'']
   \<and> map commit_id (case fst (run mem_backend addMonthsUTC [ann, bob] (\<lambda>k. 1/2) repo_broken
                                   (opts_of ''master'' False True)) of
                        Reported l \<Rightarrow> l
                      | Rejected e \<Rightarrow> []
                      | BranchNotFound \<Rightarrow> []) = [''new+++'', ''new++++'']"
proof -
  have a: "getDiff c1_nodiff = Inl (GitError ''diff unavailable'')"
    by (simp add: c1_nodiff_def)
  have b: "fst (run mem_backend addMonthsUTC [ann, bob] (\<lambda>k. 1/2) repo_nodiff opts0) =
        Rejected (GitError ''diff unavailable'')" by code_simp
  have c: "map oid (odb (snd (run mem_backend addMonthsUTC [ann, bob] (\<lambda>k. 1/2) repo_nodiff opts0))) =
        [''new+++'', ''c2'', ''c1'', ''c0'']" by code_simp
  have d: "fst (run mem_backend addMonthsUTC [ann, bob] (\<lambda>k. 1/2) repo_nodiff (opts_of ''master'' False True)) =
        Rejected (GitError ''diff unavailable'')" by code_simp
  have e: "map oid (odb (snd (run mem_backend addMonthsUTC [ann, bob] (\<lambda>k. 1/2) repo_nodiff
                           (opts_of ''master'' False True)))) =
        [''new+++'', ''c2'', ''c1'', ''c0'']" by code_simp
  have f: "map commit_id (case fst (run mem_backend addMonthsUTC [ann, bob] (\<lambda>k. 1/2) repo_broken
                                   (opts_of ''master'' False True)) of
                        Reported l \<Rightarrow> l
                      | Rejected e \<Rightarrow> []
                      | BranchNotFound \<Rightarrow> []) = [''new+++'', ''new++++'']" by code_simp
  from a b c d e f show ?thesis by (intro conjI)
qed

text \<open>
  C3. For every rewritten non-seed commit, every occurrence of the project marker
  \<^verbatim>\<open>MAKHROVYI\<close> in the original message is replaced by \<^verbatim>\<open>AnotherOneProject\<close>, and nothing
  else changes. The program calls \<^verbatim>\<open>replace\<close> with a string pattern, which rewrites the
  first occurrence only: on a message with two markers the second one stays, as in the
  commit created for \<open>c1\<close> of the sample.
\<close>

theorem replace_only_first:
  "replace ''MAKHROVYI MAKHROVYI'' ''MAKHROVYI'' ''AnotherOneProject'' = ''AnotherOneProject MAKHROVYI''
   \<and> message c1 = ''MAKHROVYI: start MAKHROVYI server''
   \<and> map message (odb (snd (projr (tryRecommit mem_backend repo0 [] c1 sigAnn sigAnn)))) =
        [''AnotherOneProject: start MAKHROVYI server'', message c2, message c1, message c0]"
proof -
  have a: "replace ''MAKHROVYI MAKHROVYI'' ''MAKHROVYI'' ''AnotherOneProject'' = ''AnotherOneProject MAKHROVYI''"
    by simp
  have b: "message c1 = ''MAKHROVYI: start MAKHROVYI server''"
    by (simp add: c1_def)
  have c: "map message (odb (snd (projr (tryRecommit mem_backend repo0 [] c1 sigAnn sigAnn)))) =
        [''AnotherOneProject: start MAKHROVYI server'', message c2, message c1, message c0]"
    by code_simp
  from a b c show ?thesis by (intro conjI)
qed

text \<open>
  C4, as the program has it. When \<^verbatim>\<open>keepAuthor\<close> is off and an author was selected, both
  signatures are built; with \<^verbatim>\<open>changeTime\<close> off each keeps its own original instant; with
  \<^verbatim>\<open>changeTime\<close> on the author instant and the committer instant each become
  \<^verbatim>\<open>operateTime\<close> of themselves, which is the date library's sum of the instant and six
  months whenever that sum is a whole number of seconds in the signed 32-bit range.
\<close>

theorem signatures_time_without_keepAuthor:
  assumes "\<not> keep"
  shows "\<exists>aSig cSig.
           authorSignature addMonths chTime keep (Some a) c = Inr aSig
         \<and> commiterSignature addMonths chTime keep (Some a) c = Inr cSig
         \<and> (\<not> chTime \<longrightarrow> time aSig = time (author c) \<and> time cSig = time (committer c))
         \<and> (chTime \<longrightarrow> time aSig = operateTime addMonths (time (author c))
                     \<and> time cSig = operateTime addMonths (time (committer c)))
         \<and> (chTime \<longrightarrow>
               (\<forall>s. addMonths (fromUnixTime (time (author c))) 6 = Some (1000 * s)
                     \<and> - 2147483648 \<le> s \<and> s < 2147483648 \<longrightarrow> time aSig = s)
             \<and> (\<forall>s. addMonths (fromUnixTime (time (committer c))) 6 = Some (1000 * s)
                     \<and> - 2147483648 \<le> s \<and> s < 2147483648 \<longrightarrow> time cSig = s))"
proof -
  let ?aSig = "Signature_create (name a) (email a) (authorTime addMonths chTime c) (offset (author c))"
  let ?cSig = "Signature_create (name a) (email a) (commiterTime addMonths chTime c) (offset (committer c))"
  have A: "authorSignature addMonths chTime keep (Some a) c = Inr ?aSig"
    using assms by (simp add: authorSignature_def)
  have C: "commiterSignature addMonths chTime keep (Some a) c = Inr ?cSig"
    using assms by (simp add: commiterSignature_def)
  have ta: "time ?aSig = authorTime addMonths chTime c" by (simp add: Signature_create_def)
  have tc: "time ?cSig = commiterTime addMonths chTime c" by (simp add: Signature_create_def)
  have exact: "operateTime addMonths u = s"
    if "addMonths (fromUnixTime u) 6 = Some (1000 * s)" "- 2147483648 \<le> s" "s < 2147483648" for u s
  proof -
    have "secondsOfDate (Some (1000 * s)) = toInt32 ((1000 * s) div 1000)"
      by (rule secondsOfDate_whole) simp
    then show ?thesis using that by (simp add: operateTime_def toInt32_id)
  qed
  have 1: "\<not> chTime \<longrightarrow> time ?aSig = time (author c) \<and> time ?cSig = time (committer c)"
    by (simp add: Signature_create_def authorTime_def commiterTime_def)
  have 2: "chTime \<longrightarrow> time ?aSig = operateTime addMonths (time (author c))
                     \<and> time ?cSig = operateTime addMonths (time (committer c))"
    by (simp add: Signature_create_def authorTime_def commiterTime_def)
  have 3: "chTime \<longrightarrow>
               (\<forall>s. addMonths (fromUnixTime (time (author c))) 6 = Some (1000 * s)
                     \<and> - 2147483648 \<le> s \<and> s < 2147483648 \<longrightarrow> time ?aSig = s)
             \<and> (\<forall>s. addMonths (fromUnixTime (time (committer c))) 6 = Some (1000 * s)
                     \<and> - 2147483648 \<le> s \<and> s < 2147483648 \<longrightarrow> time ?cSig = s)"
    using 2 exact by auto
  from A C 1 2 3 show ?thesis by blast
qed

text \<open>
  The theorem at the commit \<open>c0\<close>, with calendar months in UTC: 2023-01-15T10:00:00Z
  becomes 2023-07-15T10:00:00Z.
\<close>

theorem signatures_time_without_keepAuthor_witness:
  "(\<exists>aSig cSig. authorSignature addMonthsUTC True False (Some ann) c0 = Inr aSig
     \<and> commiterSignature addMonthsUTC True False (Some ann) c0 = Inr cSig
     \<and> time (author c0) = 1673776800 \<and> time aSig = 1689415200
     \<and> time (committer c0) = 1673776800 \<and> time cSig = 1689415200)
   \<and> (\<exists>aSig cSig. authorSignature addMonthsUTC False False (Some ann) c0 = Inr aSig
     \<and> commiterSignature addMonthsUTC False False (Some ann) c0 = Inr cSig
     \<and> time aSig = 1673776800 \<and> time cSig = 1673776800)"
proof -
  have nk: "\<not> False" by simp
  have sh: "addMonthsUTC (fromUnixTime 1673776800) 6 = Some (1000 * 1689415200)" by code_simp
  have t0: "time (author c0) = 1673776800" "time (committer c0) = 1673776800"
    by (simp_all add: c0_def sig0_def)
  from signatures_time_without_keepAuthor[of False addMonthsUTC True ann c0, OF nk]
  obtain aSig cSig where
    A: "authorSignature addMonthsUTC True False (Some ann) c0 = Inr aSig" and
    C: "commiterSignature addMonthsUTC True False (Some ann) c0 = Inr cSig" and
    E: "(\<forall>s. addMonthsUTC (fromUnixTime (time (author c0))) 6 = Some (1000 * s)
                     \<and> - 2147483648 \<le> s \<and> s < 2147483648 \<longrightarrow> time aSig = s)
             \<and> (\<forall>s. addMonthsUTC (fromUnixTime (time (committer c0))) 6 = Some (1000 * s)
                     \<and> - 2147483648 \<le> s \<and> s < 2147483648 \<longrightarrow> time cSig = s)"
    by blast
  from E sh t0 have "time aSig = 1689415200" "time cSig = 1689415200" by simp_all
  with A C t0 have on: "\<exists>aSig cSig. authorSignature addMonthsUTC True False (Some ann) c0 = Inr aSig
     \<and> commiterSignature addMonthsUTC True False (Some ann) c0 = Inr cSig
     \<and> time (author c0) = 1673776800 \<and> time aSig = 1689415200
     \<and> time (committer c0) = 1673776800 \<and> time cSig = 1689415200" by blast
  from signatures_time_without_keepAuthor[of False addMonthsUTC False ann c0, OF nk]
  obtain aSig' cSig' where
    A': "authorSignature addMonthsUTC False False (Some ann) c0 = Inr aSig'" and
    C': "commiterSignature addMonthsUTC False False (Some ann) c0 = Inr cSig'" and
    K: "\<not> False \<longrightarrow> time aSig' = time (author c0) \<and> time cSig' = time (committer c0)"
    by blast
  from K t0 have "time aSig' = 1673776800" "time cSig' = 1673776800" by simp_all
  with A' C' have off: "\<exists>aSig cSig. authorSignature addMonthsUTC False False (Some ann) c0 = Inr aSig
     \<and> commiterSignature addMonthsUTC False False (Some ann) c0 = Inr cSig
     \<and> time aSig = 1673776800 \<and> time cSig = 1673776800" by blast
  from on off show ?thesis by (rule conjI)
qed

text \<open>
  C4 as stated fails when \<^verbatim>\<open>keepAuthor\<close> is on: with \<^verbatim>\<open>changeTime\<close> on too, the signatures of
  \<open>c0\<close> are the original ones, at 1673776800, while six months later is 1689415200. It
  also fails past the 32-bit range: with \<^verbatim>\<open>keepAuthor\<close> off, an author instant of 2140000000
  (October 2037), whose six-month sum is 2155724800, becomes -2139242496.
\<close>

theorem changeTime_ignored_with_keepAuthor:
  "authorSignature addMonthsUTC True True (Some ann) c0 = Inr (author c0)
   \<and> commiterSignature addMonthsUTC True True (Some ann) c0 = Inr (committer c0)
   \<and> time (author c0) = 1673776800
   \<and> time (committer c0) = 1673776800
   \<and> addMonthsUTC (fromUnixTime 1673776800) 6 = Some (1000 * 1689415200)
   \<and> addMonthsUTC (fromUnixTime 2140000000) 6 = Some (1000 * 2155724800)
   \<and> authorSignature addMonthsUTC True False (Some ann) (c0\<lparr>author := sig0\<lparr>time := 2140000000\<rparr>\<rparr>) =
        Inr (sigAnn\<lparr>time := - 2139242496\<rparr>)"
proof -
  have sh: "addMonthsUTC (fromUnixTime 1673776800) 6 = Some (1000 * 1689415200)" by code_simp
  have sh2: "addMonthsUTC (fromUnixTime 2140000000) 6 = Some (1000 * 2155724800)" by code_simp
  have w: "authorSignature addMonthsUTC True False (Some ann) (c0\<lparr>author := sig0\<lparr>time := 2140000000\<rparr>\<rparr>) =
        Inr (sigAnn\<lparr>time := - 2139242496\<rparr>)" by code_simp
  have k: "authorSignature addMonthsUTC True True (Some ann) c0 = Inr (author c0)
   \<and> commiterSignature addMonthsUTC True True (Some ann) c0 = Inr (committer c0)
   \<and> time (author c0) = 1673776800
   \<and> time (committer c0) = 1673776800"
    by (simp add: authorSignature_def commiterSignature_def c0_def sig0_def)
  from k sh sh2 w show ?thesis by (intro conjI) (simp_all only: simp_thms)
qed

text \<open>
  C5. With \<^verbatim>\<open>keepAuthor\<close> on, whatever \<^verbatim>\<open>changeTime\<close> and the selected author are, the author
  signature and the committer signature are the original commit's own (identity, instant
  and offset), and they are what the first commit is amended with and what every other
  commit is created with.
\<close>

theorem keepAuthor_signatures_unchanged:
  "authorSignature addMonths chTime True au c = Inr (author c)
   \<and> commiterSignature addMonths chTime True au c = Inr (committer c)
   \<and> newFirstCommit P addMonths authors chTime True repo (Some c) r =
       (case determineAuthorForCommit authors r c of
          Inl e \<Rightarrow> (Inl e, repo)
        | Inr au' \<Rightarrow>
            (case getTree c of
               Inl e \<Rightarrow> (Inl e, repo)
             | Inr tree \<Rightarrow>
                 (case amend P repo c ''HEAD'' (author c) (committer c) ''UTF-8'' (message c) tree of
                    Inl e \<Rightarrow> (Inl e, repo)
                  | Inr (newCommit, repo') \<Rightarrow> (Inr (commitStats newCommit c (author c)), repo'))))
   \<and> recommit P addMonths authors chTime True repo commits (c, r) =
       (case determineAuthorForCommit authors r c of
          Inl e \<Rightarrow> (Inl e, repo)
        | Inr au' \<Rightarrow>
            (case tryRecommit P repo commits c (author c) (committer c) of
               Inl err \<Rightarrow> (Inr commits, repo)
             | Inr (commits', repo') \<Rightarrow> (Inr commits', repo')))"
  by (simp add: authorSignature_def commiterSignature_def newFirstCommit_def recommit_def
           split: sum.splits)

text \<open>
  C6. Role inference counts the changed paths that contain the backend label and those
  that contain the frontend label, anywhere in the path. With more backend paths the
  author is selected among the pool entries of role \<open>backend\<close>, with more frontend paths
  among those of role \<open>frontend\<close>, and on a tie (zero/zero included) from the whole pool;
  a selected author is a pool entry of the role that won.
\<close>

theorem determineAuthorForCommit_majority:
  assumes "getCommitFiles c = Inr (Some files)"
  shows "let b = length (filter (\<lambda>p. contains p BACKEND_LABEL) files);
             f = length (filter (\<lambda>p. contains p FRONTEND_LABEL) files);
             chosen = determineAuthorForCommit authors r c
         in (f < b \<longrightarrow> chosen = Inr (randomSelect r (filter (\<lambda>a. role a = ''backend'') authors)))
          \<and> (b < f \<longrightarrow> chosen = Inr (randomSelect r (filter (\<lambda>a. role a = ''frontend'') authors)))
          \<and> (b = f \<longrightarrow> chosen = Inr (randomSelect r authors))
          \<and> (\<forall>a. chosen = Inr (Some a) \<longrightarrow>
                a \<in> set authors \<and> (f < b \<longrightarrow> role a = ''backend'') \<and> (b < f \<longrightarrow> role a = ''frontend''))"
proof -
  define b where "b = length (filter (\<lambda>p. contains p BACKEND_LABEL) files)"
  define f where "f = length (filter (\<lambda>p. contains p FRONTEND_LABEL) files)"
  have d: "determineAuthorForCommit authors r c =
        (if f < b then Inr (getRandomAuthor authors r (Some ''backend''))
         else if b < f then Inr (getRandomAuthor authors r (Some ''frontend''))
         else Inr (getRandomAuthor authors r None))"
    using assms by (simp add: determineAuthorForCommit_def Let_def count_filter_includes b_def f_def)
  have gb: "getRandomAuthor authors r (Some ''backend'') = randomSelect r (filter (\<lambda>a. role a = ''backend'') authors)"
    by (simp add: getRandomAuthor_def)
  have gf: "getRandomAuthor authors r (Some ''frontend'') = randomSelect r (filter (\<lambda>a. role a = ''frontend'') authors)"
    by (simp add: getRandomAuthor_def)
  have gn: "getRandomAuthor authors r None = randomSelect r authors"
    by (simp add: getRandomAuthor_def)
  have mem: "a \<in> set authors \<and> (f < b \<longrightarrow> role a = ''backend'') \<and> (b < f \<longrightarrow> role a = ''frontend'')"
    if "determineAuthorForCommit authors r c = Inr (Some a)" for a
  proof -
    consider "f < b" | "b < f" | "b = f" by linarith
    then show ?thesis
    proof cases
      case 1
      with that d gb have "randomSelect r (filter (\<lambda>a. role a = ''backend'') authors) = Some a" by simp
      from randomSelect_Some_mem[OF this] 1 show ?thesis by simp
    next
      case 2
      with that d gf have "randomSelect r (filter (\<lambda>a. role a = ''frontend'') authors) = Some a" by simp
      from randomSelect_Some_mem[OF this] 2 show ?thesis by simp
    next
      case 3
      with that d gn have "randomSelect r authors = Some a" by simp
      from randomSelect_Some_mem[OF this] 3 show ?thesis by simp
    qed
  qed
  have 1: "f < b \<longrightarrow> determineAuthorForCommit authors r c =
             Inr (randomSelect r (filter (\<lambda>a. role a = ''backend'') authors))"
    using d gb by simp
  have 2: "b < f \<longrightarrow> determineAuthorForCommit authors r c =
             Inr (randomSelect r (filter (\<lambda>a. role a = ''frontend'') authors))"
    using d gf by simp
  have 3: "b = f \<longrightarrow> determineAuthorForCommit authors r c = Inr (randomSelect r authors)"
    using d gn by simp
  have 4: "\<forall>a. determineAuthorForCommit authors r c = Inr (Some a) \<longrightarrow>
             a \<in> set authors \<and> (f < b \<longrightarrow> role a = ''backend'') \<and> (b < f \<longrightarrow> role a = ''frontend'')"
    using mem by blast
  from 1 2 3 4 show ?thesis
    unfolding Let_def b_def f_def by (intro conjI)
qed

theorem determineAuthorForCommit_majority_witness:
  "getCommitFiles c1 = Inr (Some [''server/a.ts'', ''server/b.ts'', ''server/c.ts'', ''client/x.ts''])
   \<and> determineAuthorForCommit [ann, bob] (1/2) c1 = Inr (randomSelect (1/2) [ann])
   \<and> randomSelect (1/2) [ann] = Some ann
   \<and> getCommitFiles c2 = Inr (Some [''client/x.ts''])
   \<and> determineAuthorForCommit [ann, bob] (1/2) c2 = Inr (randomSelect (1/2) [bob])
   \<and> getCommitFiles c0 = Inr (Some [''README.md''])
   \<and> determineAuthorForCommit [ann, bob] (1/2) c0 = Inr (randomSelect (1/2) [ann, bob])"
proof -
  have h: "getCommitFiles c1 = Inr (Some [''server/a.ts'', ''server/b.ts'', ''server/c.ts'', ''client/x.ts''])"
    by (simp add: getCommitFiles_def c1_def)
  have b: "length (filter (\<lambda>p. contains p BACKEND_LABEL) [''server/a.ts'', ''server/b.ts'', ''server/c.ts'', ''client/x.ts'']) = 3"
    unfolding includes_s_contains[symmetric] by (simp add: BACKEND_LABEL_def)
  have f: "length (filter (\<lambda>p. contains p FRONTEND_LABEL) [''server/a.ts'', ''server/b.ts'', ''server/c.ts'', ''client/x.ts'']) = 1"
    unfolding includes_s_contains[symmetric] by (simp add: FRONTEND_LABEL_def)
  have r: "randomSelect (1/2) [ann] = Some ann" by code_simp
  have fl: "filter (\<lambda>a. role a = ''backend'') [ann, bob] = [ann]"
    by (simp add: ann_def bob_def)
  have "(1::nat) < 3 \<longrightarrow> determineAuthorForCommit [ann, bob] (1/2) c1 = Inr (randomSelect (1/2) (filter (\<lambda>a. role a = ''backend'') [ann, bob]))"
    using determineAuthorForCommit_majority[OF h, of "[ann, bob]" "1/2"]
    unfolding Let_def b f by (rule conjunct1)
  then have d1: "determineAuthorForCommit [ann, bob] (1/2) c1 = Inr (randomSelect (1/2) [ann])"
    unfolding fl by simp
  have h2: "getCommitFiles c2 = Inr (Some [''client/x.ts''])"
    by (simp add: getCommitFiles_def c2_def)
  have b2: "length (filter (\<lambda>p. contains p BACKEND_LABEL) [''client/x.ts'']) = 0"
    unfolding includes_s_contains[symmetric] by (simp add: BACKEND_LABEL_def)
  have f2: "length (filter (\<lambda>p. contains p FRONTEND_LABEL) [''client/x.ts'']) = 1"
    unfolding includes_s_contains[symmetric] by (simp add: FRONTEND_LABEL_def)
  have fl2: "filter (\<lambda>a. role a = ''frontend'') [ann, bob] = [bob]"
    by (simp add: ann_def bob_def)
  have "(0::nat) < 1 \<longrightarrow> determineAuthorForCommit [ann, bob] (1/2) c2 = Inr (randomSelect (1/2) (filter (\<lambda>a. role a = ''frontend'') [ann, bob]))"
    using determineAuthorForCommit_majority[OF h2, of "[ann, bob]" "1/2"]
    unfolding Let_def b2 f2 by (rule conjunct2[THEN conjunct1])
  then have d2: "determineAuthorForCommit [ann, bob] (1/2) c2 = Inr (randomSelect (1/2) [bob])"
    unfolding fl2 by simp
  have h0: "getCommitFiles c0 = Inr (Some [''README.md''])"
    by (simp add: getCommitFiles_def c0_def)
  have b0: "length (filter (\<lambda>p. contains p BACKEND_LABEL) [''README.md'']) = 0"
    unfolding includes_s_contains[symmetric] by (simp add: BACKEND_LABEL_def)
  have f0: "length (filter (\<lambda>p. contains p FRONTEND_LABEL) [''README.md'']) = 0"
    unfolding includes_s_contains[symmetric] by (simp add: FRONTEND_LABEL_def)
  have "(0::nat) = 0 \<longrightarrow> determineAuthorForCommit [ann, bob] (1/2) c0 = Inr (randomSelect (1/2) [ann, bob])"
    using determineAuthorForCommit_majority[OF h0, of "[ann, bob]" "1/2"]
    unfolding Let_def b0 f0 by (rule conjunct2[THEN conjunct2, THEN conjunct1])
  then have d0: "determineAuthorForCommit [ann, bob] (1/2) c0 = Inr (randomSelect (1/2) [ann, bob])"
    by simp
  from h d1 r h2 d2 h0 d0 show ?thesis by (intro conjI)
qed

text \<open>
  C7. When the source branch does not resolve, the run should try \<^verbatim>\<open>origin/<branch>\<close> and go
  on with it. The program resolves the branch a first time, to log it, outside any
  \<^verbatim>\<open>try\<close> (lines 75--80): in the sample repository, where \<open>master\<close> does not resolve and
  \<open>origin/master\<close> does, that first lookup rejects the run and the fallback is never
  tried. The repository is left as it was.
\<close>

theorem unresolved_branch_rejects_before_fallback:
  "resolveBranch mem_backend repo_origin ''master'' = Inl (GitError ''no such branch'')
   \<and> resolveBranch mem_backend repo_origin ''origin/master'' = Inr ''origin/master''
   \<and> run mem_backend addMonthsUTC [ann, bob] (\<lambda>k. 1/2) repo_origin opts0 =
        (Rejected (GitError ''no such branch''), repo_origin)"
proof -
  have a: "resolveBranch mem_backend repo_origin ''master'' = Inl (GitError ''no such branch'')"
    by code_simp
  have b: "resolveBranch mem_backend repo_origin ''origin/master'' = Inr ''origin/master''"
    by code_simp
  have "resolveBranch mem_backend repo_origin (case branch opts0 of None \<Rightarrow> ''master'' | Some b \<Rightarrow> b) =
          Inl (GitError ''no such branch'')"
    using a by (simp add: opts0_def)
  then have c: "run mem_backend addMonthsUTC [ann, bob] (\<lambda>k. 1/2) repo_origin opts0 =
        (Rejected (GitError ''no such branch''), repo_origin)"
    by (rule run_unresolved)
  from a b c show ?thesis by (intro conjI)
qed

text \<open>
  C8. The destination branch is \<^verbatim>\<open>recommited/\<close> followed by the source branch name. On a
  backend that keeps the contract on branch pointers, creating the destination branch
  succeeds from every repository state and leaves exactly one pointer of that name: from
  \<open>repo\<close>, and again from any later state \<open>later\<close>, such as the one a first run ended in.
  When the first creation is rejected and the stale pointer is deleted, creation is tried
  once more and the outcome of that second call is final.
\<close>

theorem createNewBranch_idempotent:
  assumes "branch_contract P names"
  shows "newBranchName branchName = ''recommited/'' @ branchName
       \<and> (\<exists>b r1. createNewBranch P repo branchName (Some c) = (Inr b, r1)
                 \<and> count_list (names r1) (newBranchName branchName) = 1)
       \<and> (\<exists>b r2. createNewBranch P later branchName (Some c') = (Inr b, r2)
                 \<and> count_list (names r2) (newBranchName branchName) = 1)
       \<and> (\<forall>e stale r'.
             createBranch P repo (newBranchName branchName) co True = Inl e
             \<and> getBranch P repo (newBranchName branchName) = Inr stale
             \<and> delete P repo stale = Inr r' \<longrightarrow>
               createNewBranch P repo branchName co =
                 (case createBranch P r' (newBranchName branchName) co True of
                    Inl e' \<Rightarrow> (Inl e', r')
                  | Inr (b, r'') \<Rightarrow> (Inr b, r'')))"
proof -
  have 1: "newBranchName branchName = ''recommited/'' @ branchName"
    by (simp add: newBranchName_def)
  have 2: "\<exists>b r1. createNewBranch P repo branchName (Some c) = (Inr b, r1)
                 \<and> count_list (names r1) (newBranchName branchName) = 1"
    using assms by (rule createNewBranch_succeeds)
  have 3: "\<exists>b r2. createNewBranch P later branchName (Some c') = (Inr b, r2)
                 \<and> count_list (names r2) (newBranchName branchName) = 1"
    using assms by (rule createNewBranch_succeeds)
  have 4: "\<forall>e stale r'.
             createBranch P repo (newBranchName branchName) co True = Inl e
             \<and> getBranch P repo (newBranchName branchName) = Inr stale
             \<and> delete P repo stale = Inr r' \<longrightarrow>
               createNewBranch P repo branchName co =
                 (case createBranch P r' (newBranchName branchName) co True of
                    Inl e' \<Rightarrow> (Inl e', r')
                  | Inr (b, r'') \<Rightarrow> (Inr b, r''))"
    by (intro allI impI, elim conjE) (rule createNewBranch_retry)
  from 1 2 3 4 show ?thesis by (intro conjI)
qed

text \<open>
  The theorem on the in-memory backend: the branch is created in the sample repository,
  and created again in the repository that a whole run left, where it exists and the
  first creation is rejected.
\<close>

theorem createNewBranch_idempotent_witness:
  "branch_contract mem_backend branch_names
   \<and> (\<exists>b r1. createNewBranch mem_backend repo0 ''master'' (Some c0) = (Inr b, r1)
             \<and> count_list (branch_names r1) ''recommited/master'' = 1)
   \<and> (\<exists>b r2. createNewBranch mem_backend
                 (snd (run mem_backend addMonthsUTC [ann, bob] (\<lambda>k. 1/2) repo0 opts0)) ''master'' (Some c0) = (Inr b, r2)
             \<and> count_list (branch_names r2) ''recommited/master'' = 1)
   \<and> ''recommited/master'' \<in> set (branch_names (snd (run mem_backend addMonthsUTC [ann, bob] (\<lambda>k. 1/2) repo0 opts0)))
   \<and> createBranch mem_backend (snd (run mem_backend addMonthsUTC [ann, bob] (\<lambda>k. 1/2) repo0 opts0))
        ''recommited/master'' (Some c0) True = Inl (GitError ''branch exists'')"
proof -
  note T = createNewBranch_idempotent[of mem_backend branch_names "''master''" repo0 c0
             "snd (run mem_backend addMonthsUTC [ann, bob] (\<lambda>k. 1/2) repo0 opts0)" c0 "Some c0",
             OF mem_backend_contract]
  have n: "newBranchName ''master'' = ''recommited/master''" by (simp add: newBranchName_def)
  have 1: "\<exists>b r1. createNewBranch mem_backend repo0 ''master'' (Some c0) = (Inr b, r1)
             \<and> count_list (branch_names r1) ''recommited/master'' = 1"
    using T[THEN conjunct2, THEN conjunct1] unfolding n .
  have 2: "\<exists>b r2. createNewBranch mem_backend
                 (snd (run mem_backend addMonthsUTC [ann, bob] (\<lambda>k. 1/2) repo0 opts0)) ''master'' (Some c0) = (Inr b, r2)
             \<and> count_list (branch_names r2) ''recommited/master'' = 1"
    using T[THEN conjunct2, THEN conjunct2, THEN conjunct1] unfolding n .
  have 3: "''recommited/master'' \<in> set (branch_names (snd (run mem_backend addMonthsUTC [ann, bob] (\<lambda>k. 1/2) repo0 opts0)))"
    by code_simp
  have 4: "createBranch mem_backend (snd (run mem_backend addMonthsUTC [ann, bob] (\<lambda>k. 1/2) repo0 opts0))
        ''recommited/master'' (Some c0) True = Inl (GitError ''branch exists'')"
    by code_simp
  from mem_backend_contract 1 2 3 4 show ?thesis by (intro conjI)
qed

text \<open>
  C9, as the program has it. The claim says that an empty role-filtered subset falls back
  to a defined selection. The program has no fallback: the selection is an entry of the
  candidate list (the role-filtered subset, or the whole pool when no role is given)
  exactly when that list is not empty, and \<^verbatim>\<open>undefined\<close> when it is empty. (\<open>r\<close> is a value of
  \<^verbatim>\<open>Math.random()\<close>, in \<open>[0, 1)\<close>; the pool has fewer than \<open>2^31\<close> entries.)
\<close>

theorem getRandomAuthor_defined_iff_candidates:
  assumes "0 \<le> r" and "r < 1" and "length authors < 2147483648"
  shows "let candidates = (if rl = None \<or> rl = Some [] then authors
                           else filter (\<lambda>a. Some (role a) = rl) authors)
         in (candidates = [] \<longrightarrow> getRandomAuthor authors r rl = None)
          \<and> (candidates \<noteq> [] \<longrightarrow> (\<exists>a \<in> set candidates. getRandomAuthor authors r rl = Some a))"
proof -
  define candidates where "candidates = (if rl = None \<or> rl = Some [] then authors
                           else filter (\<lambda>a. Some (role a) = rl) authors)"
  have g: "getRandomAuthor authors r rl = randomSelect r candidates"
    by (simp add: getRandomAuthor_def candidates_def)
  have "length candidates \<le> length authors"
    by (simp add: candidates_def)
  then have len: "length candidates < 2147483648" using assms(3) by linarith
  have e: "candidates = [] \<longrightarrow> getRandomAuthor authors r rl = None"
    using g by (simp add: randomSelect_empty)
  have n: "candidates \<noteq> [] \<longrightarrow> (\<exists>a \<in> set candidates. getRandomAuthor authors r rl = Some a)"
  proof
    assume ne: "candidates \<noteq> []"
    from randomSelect_index[OF assms(1,2) ne len]
    obtain i where "i < length candidates" "randomSelect r candidates = Some (candidates ! i)"
      by blast
    then show "\<exists>a \<in> set candidates. getRandomAuthor authors r rl = Some a"
      using g nth_mem by fastforce
  qed
  from e n show ?thesis unfolding Let_def candidates_def by (intro conjI)
qed

text \<open>The theorem at a pool of two, and at a pool with no backend entry.\<close>

theorem getRandomAuthor_defined_iff_candidates_witness:
  "(0::rat) \<le> 1/2 \<and> (1/2::rat) < 1 \<and> length [ann, bob] < 2147483648
   \<and> getRandomAuthor [ann, bob] (1/2) (Some ''frontend'') = Some bob
   \<and> getRandomAuthor [bob] (1/2) (Some ''backend'') = None"
proof -
  have a: "(0::rat) \<le> 1/2" and b: "(1/2::rat) < 1" by simp_all
  have l2: "length [ann, bob] < 2147483648" and l1: "length [bob] < 2147483648" by simp_all
  have "\<exists>a \<in> set [bob]. getRandomAuthor [ann, bob] (1/2) (Some ''frontend'') = Some a"
    using getRandomAuthor_defined_iff_candidates[OF a b l2, of "Some ''frontend''"]
    unfolding Let_def by (simp add: ann_def bob_def)
  then have 1: "getRandomAuthor [ann, bob] (1/2) (Some ''frontend'') = Some bob" by simp
  have 2: "getRandomAuthor [bob] (1/2) (Some ''backend'') = None"
    using getRandomAuthor_defined_iff_candidates[OF a b l1, of "Some ''backend''"]
    unfolding Let_def by (simp add: bob_def)
  from a b l2 1 2 show ?thesis by (intro conjI)
qed

text \<open>
  C9 as stated fails: the pool \<open>[bob]\<close> is not empty, \<open>c1\<close> has a backend majority, the
  selection is \<^verbatim>\<open>undefined\<close>, and with \<^verbatim>\<open>keepAuthor\<close> off the reducer is rejected by the
  read of \<^verbatim>\<open>author.name\<close>.
\<close>

theorem empty_role_subset_undefined:
  "[bob] \<noteq> []
   \<and> determineAuthorForCommit [bob] (1/2) c1 = Inr None
   \<and> fst (recommit mem_backend addMonthsUTC [bob] False False repo0 [] (c1, 1/2)) = Inl (TypeError ''name'')"
proof -
  have d: "determineAuthorForCommit [bob] (1/2) c1 = Inr None"
    by code_simp
  have "recommit mem_backend addMonthsUTC [bob] False False repo0 [] (c1, 1/2) = (Inl (TypeError ''name''), repo0)"
    by (simp add: recommit_def d authorSignature_def)
  with d show ?thesis by simp
qed

text \<open>
  C10, as the program has it. \<^verbatim>\<open>operateTime\<close> converts the shifted instant back to seconds
  and truncates to 32 bits. For a shifted instant of \<open>s\<close> seconds (a whole number of
  seconds, or not before 1970): when \<open>s\<close> is in the signed 32-bit range the result is \<open>s\<close>;
  when \<open>s\<close> is \<open>2^31\<close> or more the result is not \<open>s\<close> but \<open>s\<close> less a positive multiple of
  \<open>2^32\<close>, within the 32-bit range; it is negative for \<open>s\<close> from \<open>2^31\<close> up to \<open>2^32 - 1\<close>.
\<close>

theorem operateTime_32bit:
  assumes "addMonths (fromUnixTime t) 6 = Some ms" and "0 \<le> ms \<or> 1000 dvd ms"
  shows "let s = ms div 1000; res = operateTime addMonths t
         in (- 2147483648 \<le> s \<and> s < 2147483648 \<longrightarrow> res = s)
          \<and> (2147483648 \<le> s \<longrightarrow>
               res \<noteq> s \<and> - 2147483648 \<le> res \<and> res < 2147483648
               \<and> (\<exists>k>0. res = s - k * 4294967296))
          \<and> (2147483648 \<le> s \<and> s < 4294967296 \<longrightarrow> res = s - 4294967296 \<and> res < 0)"
proof -
  define s where "s = ms div 1000"
  have res: "operateTime addMonths t = toInt32 s"
    using assms by (simp add: operateTime_def secondsOfDate_whole s_def)
  have 1: "- 2147483648 \<le> s \<and> s < 2147483648 \<longrightarrow> operateTime addMonths t = s"
    using res by (simp add: toInt32_id)
  have 2: "2147483648 \<le> s \<longrightarrow>
             operateTime addMonths t \<noteq> s \<and> - 2147483648 \<le> operateTime addMonths t
             \<and> operateTime addMonths t < 2147483648
             \<and> (\<exists>k>0. operateTime addMonths t = s - k * 4294967296)"
    using toInt32_high[of s] toInt32_range[of s] unfolding res by blast
  have 3: "2147483648 \<le> s \<and> s < 4294967296 \<longrightarrow>
             operateTime addMonths t = s - 4294967296 \<and> operateTime addMonths t < 0"
    using toInt32_second_block[of s] unfolding res by auto
  from 1 2 3 show ?thesis unfolding Let_def s_def by (intro conjI)
qed

text \<open>
  The theorem at 2023-01-15T10:00:00Z (in range) and at 2037-10-24 (the shifted instant
  passes \<open>2^31\<close> seconds and the result is negative).
\<close>

theorem operateTime_32bit_witness:
  "addMonthsUTC (fromUnixTime 1673776800) 6 = Some 1689415200000
   \<and> operateTime addMonthsUTC 1673776800 = 1689415200
   \<and> addMonthsUTC (fromUnixTime 2140000000) 6 = Some 2155724800000
   \<and> operateTime addMonthsUTC 2140000000 = 2155724800 - 4294967296"
proof -
  have a1: "addMonthsUTC (fromUnixTime 1673776800) 6 = Some 1689415200000" by code_simp
  have a2: "addMonthsUTC (fromUnixTime 2140000000) 6 = Some 2155724800000" by code_simp
  have p1: "(0::int) \<le> 1689415200000 \<or> (1000::int) dvd 1689415200000" by simp
  have p2: "(0::int) \<le> 2155724800000 \<or> (1000::int) dvd 2155724800000" by simp
  have 1: "operateTime addMonthsUTC 1673776800 = 1689415200"
    using operateTime_32bit[of addMonthsUTC 1673776800 1689415200000, OF a1 p1] unfolding Let_def by simp
  have 2: "operateTime addMonthsUTC 2140000000 = 2155724800 - 4294967296"
    using operateTime_32bit[of addMonthsUTC 2140000000 2155724800000, OF a2 p2] unfolding Let_def by simp
  from a1 1 a2 2 show ?thesis by (intro conjI)
qed

text \<open>
  C10 as stated fails where it says that every wrapped result is negative: the instant
  \<open>2^32\<close> (in 2106) is shifted to 4310605696 seconds, and the result is 15638400. It also
  fails below the 32-bit range: an instant in April 1900 is shifted to -2184188800
  seconds, which is below \<open>2^31\<close>, and the result is 2110778496.
\<close>

theorem operateTime_wrap_not_negative:
  "addMonthsUTC (fromUnixTime 4294967296) 6 = Some 4310605696000
   \<and> (2147483648::int) \<le> 4310605696000 div 1000
   \<and> operateTime addMonthsUTC 4294967296 = 15638400
   \<and> \<not> operateTime addMonthsUTC 4294967296 < 0
   \<and> addMonthsUTC (fromUnixTime (- 2200000000)) 6 = Some (- 2184188800000)
   \<and> (- 2184188800000::int) div 1000 < 2147483648
   \<and> operateTime addMonthsUTC (- 2200000000) = 2110778496"
proof -
  have a: "addMonthsUTC (fromUnixTime 4294967296) 6 = Some 4310605696000" by code_simp
  have b: "operateTime addMonthsUTC 4294967296 = 15638400" by code_simp
  have c: "(2147483648::int) \<le> 4310605696000 div 1000" by simp
  have d: "addMonthsUTC (fromUnixTime (- 2200000000)) 6 = Some (- 2184188800000)" by code_simp
  have e: "operateTime addMonthsUTC (- 2200000000) = 2110778496" by code_simp
  have f: "(- 2184188800000::int) div 1000 < 2147483648" by simp
  from a b c d e f show ?thesis by simp
qed

end
